theory Spec2Isabelle
  imports Main "HOL-Library.Word"
begin

unbundle bit_operations_syntax

section \<open>civic-auth-go: a shallow embedding of pkg/civicauth\<close>

text \<open>
  The embedding follows \<^verbatim>\<open>pkg/civicauth/config.go\<close>, \<^verbatim>\<open>client.go\<close> and
  \<^verbatim>\<open>tokens.go\<close>. Go strings are \<open>string\<close>, bytes are \<open>8 word\<close>, \<open>int\<close> and
  \<open>int64\<close> are \<open>64 word\<close> read with \<open>sint\<close>. A Go function returning
  \<^verbatim>\<open>(T, error)\<close> returns \<open>error + T\<close> (\<open>Inl\<close> the error), one returning only an
  \<^verbatim>\<open>error\<close> returns \<open>error option\<close>. On the path of key conversion, which can
  panic, the result is \<open>fault + T\<close>: \<open>Inl (Error e)\<close> is the returned error and
  \<open>Inl (Panic p)\<close> a run-time panic, which unwinds through every caller and is never
  wrapped. Every \<^verbatim>\<open>fmt.Errorf\<close> and \<^verbatim>\<open>errors.New\<close> site of the source is one
  constructor of \<open>error\<close>; \<^verbatim>\<open>%w\<close> wrapping keeps the wrapped error as argument.
  Mutable receivers (the token manager, the storage) are passed in and returned.
\<close>

subsection \<open>Errors\<close>

datatype header_value = HString string | HOther

datatype error =
    ProviderNotInitialized
  | FailedToCreateJWKRequest
  | FailedToFetchJWKSet
  | JWKRequestFailedWithStatus int
  | FailedToReadJWKResponse
  | FailedToDecodeJWKSet
  | FailedToRefetchJWKSet error
  | KeyNotFound string
  | FailedToConvertJWK error
  | FailedToDecodeX509Certificate
  | FailedToParseX509Certificate
  | CertificateNotRSA
  | JWKMissingRequiredParameters
  | FailedToDecodeN
  | FailedToDecodeE
  | TokenHeaderMissingKid
  | FailedToGetPublicKey error
  | UnexpectedSigningMethod "header_value option"
  | ErrTokenMalformed
  | ErrTokenUnverifiable error
  | ErrTokenSignatureInvalid
  | ErrTokenInvalidClaims "error list"
  | ErrTokenExpired
  | ErrTokenNotValidYet
  | ErrInvalidType
  | FailedToParseAndVerify error
  | IDTokenIsInvalid
  | FailedToGetTokenClaims
  | FailedToMarshalClaims
  | FailedToUnmarshalClaims
  | InvalidIssuer string string
  | InvalidAudience string string
  | TokenHasExpired
  | UserIDCannotBeEmpty
  | TokensNotFoundForUser
  | FailedToRetrieveTokens error
  | FailedToRefreshToken error
  | FailedToStoreRefreshedTokens error
  | FailedToCreateRefreshRequest
  | RefreshRequestFailed
  | FailedToReadRefreshResponse
  | TokenRefreshFailedWithStatus int string
  | FailedToDecodeRefreshResponse
  | RandReadFailed

datatype panic = NilPointerDereference

datatype fault = Error error | Panic panic

text \<open>\<^verbatim>\<open>fmt.Errorf("...: %w", err)\<close> on the error path of a call: an error is wrapped,
  a panic passes through.\<close>

fun wrap :: "(error \<Rightarrow> error) \<Rightarrow> fault \<Rightarrow> fault" where
  "wrap f (Error e) = Error (f e)"
| "wrap f (Panic p) = Panic p"

subsection \<open>Data model (config.go)\<close>

text \<open>
  \<^verbatim>\<open>Config.HTTPClient\<close> and \<^verbatim>\<open>Config.Timeout\<close> are the HTTP client of the
  environment below. \<^verbatim>\<open>UserInfo\<close> is left out: no operation modelled here uses it.
  \<^verbatim>\<open>Client.provider\<close> is a pointer, \<open>None\<close> when nil.
\<close>

record Config =
  ClientID :: string
  ClientSecret :: string
  RedirectURL :: string
  Issuer :: string
  Scopes :: "string list"

record OIDCProvider =
  provider_Issuer :: string
  AuthorizationEndpoint :: string
  TokenEndpoint :: string
  UserinfoEndpoint :: string
  JwksURI :: string
  EndSessionEndpoint :: string

record TokenResponse =
  AccessToken :: string
  RefreshToken :: string
  IDToken :: string
  TokenType :: string
  ExpiresIn :: "64 word"
  Scope :: string

record Client =
  config :: Config
  provider :: "OIDCProvider option"

subsection \<open>Time\<close>

text \<open>
  A \<^verbatim>\<open>time.Time\<close> is observed through its seconds since year 1 (\<^verbatim>\<open>t.sec()\<close>), its
  nanoseconds within the second (\<^verbatim>\<open>t.nsec()\<close>) and its monotonic clock reading, if it
  has one. \<^verbatim>\<open>time.Unix(sec, 0)\<close> stores \<^verbatim>\<open>sec + unixToInternal\<close> in an
  \<^verbatim>\<open>int64\<close> (the addition wraps) and carries no monotonic reading; \<^verbatim>\<open>Before\<close> and
  \<^verbatim>\<open>After\<close> compare the monotonic readings when both times have one and the wall
  clock otherwise.
\<close>

record Time =
  sec :: int
  nsec :: int
  mono :: "int option"

definition unixToInternal :: int where
  "unixToInternal = 62135596800"

definition time_Unix0 :: "64 word \<Rightarrow> Time" where
  "time_Unix0 s = \<lparr>sec = sint (s + word_of_int unixToInternal), nsec = 0, mono = None\<rparr>"

definition time_Before :: "Time \<Rightarrow> Time \<Rightarrow> bool" where
  "time_Before t u =
     (case (mono t, mono u) of
        (Some a, Some b) \<Rightarrow> a < b
      | _ \<Rightarrow> sec t < sec u \<or> (sec t = sec u \<and> nsec t < nsec u))"

definition time_After :: "Time \<Rightarrow> Time \<Rightarrow> bool" where
  "time_After t u =
     (case (mono t, mono u) of
        (Some a, Some b) \<Rightarrow> a > b
      | _ \<Rightarrow> sec t > sec u \<or> (sec t = sec u \<and> nsec t > nsec u))"

text \<open>Nanoseconds since the Unix epoch of a wall-clock reading.\<close>

definition unix_nano :: "Time \<Rightarrow> int" where
  "unix_nano t = (sec t - unixToInternal) * 1000000000 + nsec t"

subsection \<open>The environment: HTTP, JSON, certificates\<close>

text \<open>
  What the package reaches through the standard library and the network is a parameter,
  collected in \<open>env\<close>: \<^verbatim>\<open>base64.StdEncoding.DecodeString\<close> and
  \<^verbatim>\<open>x509.ParseCertificate\<close> (\<open>None\<close> when they return an error),
  \<^verbatim>\<open>json.Unmarshal\<close> at the two types it is used at, whether
  \<^verbatim>\<open>http.NewRequestWithContext\<close> accepts a method and a URL, and
  \<^verbatim>\<open>HTTPClient.Do\<close>. \<open>http_Do env n req\<close> is the outcome of sending \<open>req\<close>
  when \<open>n\<close> requests have been sent before it (\<open>None\<close>: a transport error); the
  number of requests sent so far is threaded through every function that uses the
  network, so that the provider may answer two equal requests differently. A response
  whose body cannot be read has \<open>Body = None\<close>.
\<close>

record Request =
  req_method :: string
  req_url :: string
  req_form :: "(string \<times> string) list"

record Response =
  StatusCode :: int
  Body :: "string option"

text \<open>
  Keys: \<^verbatim>\<open>JWK\<close> and \<^verbatim>\<open>JWKSet\<close> of \<^verbatim>\<open>tokens.go\<close>, \<^verbatim>\<open>rsa.PublicKey\<close> (a
  \<^verbatim>\<open>*big.Int\<close> modulus, \<open>None\<close> when nil, and an \<^verbatim>\<open>int\<close> exponent), and of an
  \<^verbatim>\<open>x509.Certificate\<close> its public key, which is an RSA key or a key of another kind.
\<close>

record JWK =
  Kty :: string
  Use :: string
  Kid :: string
  X5t :: string
  jwk_N :: string
  jwk_E :: string
  X5c :: "string list"

record JWKSet =
  Keys :: "JWK list"

record rsa_PublicKey =
  rsa_N :: "nat option"
  rsa_E :: "64 word"

datatype crypto_PublicKey = RSAPublicKey rsa_PublicKey | OtherPublicKey

record Certificate =
  PublicKey :: crypto_PublicKey

record env =
  base64_StdEncoding_DecodeString :: "string \<Rightarrow> 8 word list option"
  x509_ParseCertificate :: "8 word list \<Rightarrow> Certificate option"
  json_Unmarshal_JWKSet :: "string \<Rightarrow> JWKSet option"
  json_Unmarshal_TokenResponse :: "string \<Rightarrow> TokenResponse option"
  http_NewRequest :: "string \<Rightarrow> string \<Rightarrow> bool"
  http_Do :: "nat \<Rightarrow> Request \<Rightarrow> Response option"

subsection \<open>base64.RawURLEncoding\<close>

text \<open>
  \<^verbatim>\<open>EncodeToString\<close> and \<^verbatim>\<open>DecodeString\<close> of Go's \<^verbatim>\<open>encoding/base64\<close> for the
  URL alphabet without padding. The encoder takes three source bytes to four characters
  and a remainder of one or two bytes to two or three characters. The decoder skips
  carriage returns and line feeds, fails on any other character outside the alphabet and
  on a final group of a single character, and (not being strict) ignores the unused low
  bits of a final group.
\<close>

definition encodeURL :: string where
  "encodeURL = ''ABCDEFGHIJKLMNOPQRSTUVWXYZabcdefghijklmnopqrstuvwxyz0123456789-_''"

definition encode_at :: "64 word \<Rightarrow> char" where
  "encode_at v = encodeURL ! unat (v AND 0x3F)"

fun RawURLEncoding_Encode :: "8 word list \<Rightarrow> string" where
  "RawURLEncoding_Encode (s0 # s1 # s2 # src) =
     (let val = push_bit 16 (ucast s0) OR push_bit 8 (ucast s1) OR ucast s2
      in encode_at (drop_bit 18 val) # encode_at (drop_bit 12 val)
         # encode_at (drop_bit 6 val) # encode_at val # RawURLEncoding_Encode src)"
| "RawURLEncoding_Encode [s0, s1] =
     (let val = push_bit 16 (ucast s0) OR push_bit 8 (ucast s1)
      in [encode_at (drop_bit 18 val), encode_at (drop_bit 12 val), encode_at (drop_bit 6 val)])"
| "RawURLEncoding_Encode [s0] =
     (let val = push_bit 16 (ucast s0)
      in [encode_at (drop_bit 18 val), encode_at (drop_bit 12 val)])"
| "RawURLEncoding_Encode [] = []"


definition RawURLEncoding_EncodeToString :: "8 word list \<Rightarrow> string" where
  "RawURLEncoding_EncodeToString src = RawURLEncoding_Encode src"

fun index_of :: "char \<Rightarrow> string \<Rightarrow> nat option" where
  "index_of c [] = None"
| "index_of c (x # xs) = (if c = x then Some 0 else map_option Suc (index_of c xs))"

definition decodeMap :: "char \<Rightarrow> 64 word option" where
  "decodeMap c = map_option of_nat (index_of c encodeURL)"

fun decodeQuanta :: "64 word list \<Rightarrow> 8 word list option" where
  "decodeQuanta (d0 # d1 # d2 # d3 # src) =
     (let val = push_bit 18 d0 OR push_bit 12 d1 OR push_bit 6 d2 OR d3
      in map_option (\<lambda>dst. ucast (drop_bit 16 val) # ucast (drop_bit 8 val) # ucast val # dst)
           (decodeQuanta src))"
| "decodeQuanta [d0, d1, d2] =
     (let val = push_bit 18 d0 OR push_bit 12 d1 OR push_bit 6 d2
      in Some [ucast (drop_bit 16 val), ucast (drop_bit 8 val)])"
| "decodeQuanta [d0, d1] =
     (let val = push_bit 18 d0 OR push_bit 12 d1
      in Some [ucast (drop_bit 16 val)])"
| "decodeQuanta [d0] = None"
| "decodeQuanta [] = Some []"

definition RawURLEncoding_DecodeString :: "string \<Rightarrow> 8 word list option" where
  "RawURLEncoding_DecodeString s =
     (case those (map decodeMap (filter (\<lambda>c. c \<noteq> CHR 0x0A \<and> c \<noteq> CHR 0x0D) s)) of
        None \<Rightarrow> None
      | Some ds \<Rightarrow> decodeQuanta ds)"


subsection \<open>PKCE and state generation (client.go)\<close>

text \<open>
  \<^verbatim>\<open>crypto/rand.Read\<close> either fails or fills the whole buffer; \<^verbatim>\<open>sha256.Sum256\<close>
  is a parameter. \<open>url_safe\<close> is the unreserved character set of RFC 3986, from which
  RFC 7636 builds code verifiers.
\<close>

datatype rand_source = RandFails | RandBytes "nat \<Rightarrow> 8 word"

definition rand_Read :: "rand_source \<Rightarrow> nat \<Rightarrow> error + 8 word list" where
  "rand_Read rnd n =
     (case rnd of RandFails \<Rightarrow> Inl RandReadFailed | RandBytes f \<Rightarrow> Inr (map f [0..<n]))"

definition bytes_of_string :: "string \<Rightarrow> 8 word list" where
  "bytes_of_string s = map of_char s"

definition generateCodeChallenge ::
  "(8 word list \<Rightarrow> 8 word list) \<Rightarrow> rand_source \<Rightarrow> error + string \<times> string" where
  "generateCodeChallenge sha256_Sum256 rnd =
     (case rand_Read rnd 32 of
        Inl err \<Rightarrow> Inl err
      | Inr b \<Rightarrow>
          let codeVerifier = RawURLEncoding_EncodeToString b;
              h = sha256_Sum256 (bytes_of_string codeVerifier);
              codeChallenge = RawURLEncoding_EncodeToString h
          in Inr (codeVerifier, codeChallenge))"

definition generateState :: "rand_source \<Rightarrow> error + string" where
  "generateState rnd =
     (case rand_Read rnd 16 of
        Inl err \<Rightarrow> Inl err
      | Inr b \<Rightarrow> Inr (RawURLEncoding_EncodeToString b))"

definition url_safe :: "char \<Rightarrow> bool" where
  "url_safe c =
     (let n = of_char c :: nat
      in (65 \<le> n \<and> n \<le> 90) \<or> (97 \<le> n \<and> n \<le> 122) \<or> (48 \<le> n \<and> n \<le> 57)
         \<or> c = CHR ''-'' \<or> c = CHR ''.'' \<or> c = CHR ''_'' \<or> c = CHR ''~'')"

subsection \<open>Token refresh over HTTP (client.go)\<close>

text \<open>The form of the request is kept as the list of its fields, in the order
  \<^verbatim>\<open>url.Values.Encode\<close> writes them (sorted by key).\<close>

definition Client_RefreshToken ::
  "env \<Rightarrow> Client \<Rightarrow> string \<Rightarrow> nat \<Rightarrow> (error + TokenResponse) \<times> nat" where
  "Client_RefreshToken env c refreshToken n =
     (case provider c of
        None \<Rightarrow> (Inl ProviderNotInitialized, n)
      | Some p \<Rightarrow>
          let data = [(''client_id'', ClientID (config c)),
                      (''client_secret'', ClientSecret (config c)),
                      (''grant_type'', ''refresh_token''),
                      (''refresh_token'', refreshToken)]
          in if \<not> http_NewRequest env ''POST'' (TokenEndpoint p)
             then (Inl FailedToCreateRefreshRequest, n)
             else
               (case http_Do env n
                       \<lparr>req_method = ''POST'', req_url = TokenEndpoint p, req_form = data\<rparr> of
                  None \<Rightarrow> (Inl RefreshRequestFailed, Suc n)
                | Some resp \<Rightarrow>
                    (case Body resp of
                       None \<Rightarrow> (Inl FailedToReadRefreshResponse, Suc n)
                     | Some body \<Rightarrow>
                         if StatusCode resp \<noteq> 200
                         then (Inl (TokenRefreshFailedWithStatus (StatusCode resp) body), Suc n)
                         else
                           (case json_Unmarshal_TokenResponse env body of
                              None \<Rightarrow> (Inl FailedToDecodeRefreshResponse, Suc n)
                            | Some tokenResp \<Rightarrow> (Inr tokenResp, Suc n)))))"

subsection \<open>Key set cache (tokens.go)\<close>

record TokenManager =
  tm_Client :: Client
  jwkSet :: "JWKSet option"
  jwkCache :: "string \<rightharpoonup> rsa_PublicKey"

definition NewTokenManager :: "Client \<Rightarrow> TokenManager" where
  "NewTokenManager client = \<lparr>tm_Client = client, jwkSet = None, jwkCache = Map.empty\<rparr>"

definition fetchJWKSet :: "env \<Rightarrow> TokenManager \<Rightarrow> nat \<Rightarrow> error option \<times> TokenManager \<times> nat" where
  "fetchJWKSet env tm n =
     (case provider (tm_Client tm) of
        None \<Rightarrow> (Some ProviderNotInitialized, tm, n)
      | Some p \<Rightarrow>
          if \<not> http_NewRequest env ''GET'' (JwksURI p) then (Some FailedToCreateJWKRequest, tm, n)
          else
            (case http_Do env n \<lparr>req_method = ''GET'', req_url = JwksURI p, req_form = []\<rparr> of
               None \<Rightarrow> (Some FailedToFetchJWKSet, tm, Suc n)
             | Some resp \<Rightarrow>
                 if StatusCode resp \<noteq> 200
                 then (Some (JWKRequestFailedWithStatus (StatusCode resp)), tm, Suc n)
                 else
                   (case Body resp of
                      None \<Rightarrow> (Some FailedToReadJWKResponse, tm, Suc n)
                    | Some body \<Rightarrow>
                        (case json_Unmarshal_JWKSet env body of
                           None \<Rightarrow> (Some FailedToDecodeJWKSet, tm, Suc n)
                         | Some ks \<Rightarrow> (None, tm\<lparr>jwkSet := Some ks\<rparr>, Suc n)))))"

text \<open>
  \<^verbatim>\<open>rsa.PublicKey\<close> is \<^verbatim>\<open>struct { N *big.Int; E int }\<close>: \<open>rsa_N\<close> is \<open>None\<close> for
  the nil pointer. \<^verbatim>\<open>new(rsa.PublicKey)\<close> is the zero value, with a nil \<^verbatim>\<open>N\<close>.
  \<^verbatim>\<open>(*big.Int).SetBytes\<close> writes through its receiver: on a nil receiver it panics
  with a nil pointer dereference; on an allocated one it reads the buffer as a big-endian
  number.
\<close>

definition big_Int_SetBytes :: "nat option \<Rightarrow> 8 word list \<Rightarrow> panic + nat" where
  "big_Int_SetBytes z buf =
     (case z of
        None \<Rightarrow> Inl NilPointerDereference
      | Some _ \<Rightarrow> Inr (foldl (\<lambda>a b. a * 256 + unat b) 0 buf))"

definition new_rsa_PublicKey :: rsa_PublicKey where
  "new_rsa_PublicKey = \<lparr>rsa_N = None, rsa_E = 0\<rparr>"

definition jwkToRSAPublicKey :: "env \<Rightarrow> JWK \<Rightarrow> fault + rsa_PublicKey" where
  "jwkToRSAPublicKey env jwk =
     (case X5c jwk of
        x5c0 # _ \<Rightarrow>
          (case base64_StdEncoding_DecodeString env x5c0 of
             None \<Rightarrow> Inl (Error FailedToDecodeX509Certificate)
           | Some certData \<Rightarrow>
               (case x509_ParseCertificate env certData of
                  None \<Rightarrow> Inl (Error FailedToParseX509Certificate)
                | Some cert \<Rightarrow>
                    (case PublicKey cert of
                       RSAPublicKey rsaKey \<Rightarrow> Inr rsaKey
                     | OtherPublicKey \<Rightarrow> Inl (Error CertificateNotRSA))))
      | [] \<Rightarrow>
          if jwk_N jwk = [] \<or> jwk_E jwk = [] then Inl (Error JWKMissingRequiredParameters)
          else
            (case RawURLEncoding_DecodeString (jwk_N jwk) of
               None \<Rightarrow> Inl (Error FailedToDecodeN)
             | Some nBytes \<Rightarrow>
                 (case RawURLEncoding_DecodeString (jwk_E jwk) of
                    None \<Rightarrow> Inl (Error FailedToDecodeE)
                  | Some eBytes \<Rightarrow>
                      (case big_Int_SetBytes (rsa_N new_rsa_PublicKey) nBytes of
                         Inl p \<Rightarrow> Inl (Panic p)
                       | Inr v \<Rightarrow>
                           Inr (new_rsa_PublicKey
                                  \<lparr>rsa_N := Some v,
                                   rsa_E := foldl (\<lambda>e b. e * 256 + ucast b) 0 eBytes\<rparr>)))))"

text \<open>
  \<open>getPublicKey_convert\<close> is the end of \<^verbatim>\<open>getPublicKey\<close> (conversion and caching),
  which both the first and the second search reach. The search loops are \<open>find\<close> on
  the key list. \<^verbatim>\<open>tm.jwkSet.Keys\<close> on a nil \<^verbatim>\<open>jwkSet\<close> would panic; it is
  unreachable, since a fetch that returns no error has set the field.
\<close>

definition getPublicKey_convert ::
  "env \<Rightarrow> string \<Rightarrow> JWK \<Rightarrow> TokenManager \<Rightarrow> nat \<Rightarrow> (fault + rsa_PublicKey) \<times> TokenManager \<times> nat" where
  "getPublicKey_convert env kid jwk tm n =
     (case jwkToRSAPublicKey env jwk of
        Inl f \<Rightarrow> (Inl (wrap FailedToConvertJWK f), tm, n)
      | Inr publicKey \<Rightarrow> (Inr publicKey, tm\<lparr>jwkCache := (jwkCache tm)(kid \<mapsto> publicKey)\<rparr>, n))"

definition getPublicKey ::
  "env \<Rightarrow> string \<Rightarrow> TokenManager \<Rightarrow> nat \<Rightarrow> (fault + rsa_PublicKey) \<times> TokenManager \<times> nat" where
  "getPublicKey env kid tm n =
     (case jwkCache tm kid of
        Some key \<Rightarrow> (Inr key, tm, n)
      | None \<Rightarrow>
          (case (if jwkSet tm = None then fetchJWKSet env tm n else (None, tm, n)) of
             (Some err, tm1, n1) \<Rightarrow> (Inl (Error err), tm1, n1)
           | (None, tm1, n1) \<Rightarrow>
               (case jwkSet tm1 of
                  None \<Rightarrow> (Inl (Panic NilPointerDereference), tm1, n1)
                | Some ks1 \<Rightarrow>
                    (case find (\<lambda>key. Kid key = kid) (Keys ks1) of
                       Some jwk \<Rightarrow> getPublicKey_convert env kid jwk tm1 n1
                     | None \<Rightarrow>
                         (case fetchJWKSet env tm1 n1 of
                            (Some err, tm2, n2) \<Rightarrow>
                              (Inl (Error (FailedToRefetchJWKSet err)), tm2, n2)
                          | (None, tm2, n2) \<Rightarrow>
                              (case jwkSet tm2 of
                                 None \<Rightarrow> (Inl (Panic NilPointerDereference), tm2, n2)
                               | Some ks2 \<Rightarrow>
                                   (case find (\<lambda>key. Kid key = kid) (Keys ks2) of
                                      None \<Rightarrow> (Inl (Error (KeyNotFound kid)), tm2, n2)
                                    | Some jwk \<Rightarrow> getPublicKey_convert env kid jwk tm2 n2)))))))"



subsection \<open>ID token validation (tokens.go)\<close>

record Claims =
  Claims_Issuer :: string
  Claims_Subject :: string
  Claims_Audience :: string
  Claims_Expiry :: "64 word"
  Claims_IssuedAt :: "64 word"
  Claims_Nonce :: string
  Claims_AuthTime :: "64 word"
  Claims_SessionState :: string
  Claims_Name :: string
  Claims_GivenName :: string
  Claims_FamilyName :: string
  Claims_MiddleName :: string
  Claims_Nickname :: string
  Claims_PreferredUsername :: string
  Claims_Profile :: string
  Claims_Picture :: string
  Claims_Website :: string
  Claims_Email :: string
  Claims_EmailVerified :: bool
  Claims_Gender :: string
  Claims_Birthdate :: string
  Claims_Zoneinfo :: string
  Claims_Locale :: string
  Claims_PhoneNumber :: string
  Claims_PhoneVerified :: bool
  Claims_UpdatedAt :: "64 word"

text \<open>
  A parsed token, as \<^verbatim>\<open>golang-jwt/jwt/v5\<close> hands it to the key function: the header
  as a map to \<^verbatim>\<open>interface{}\<close> values (\<open>HString\<close> for a string, \<open>HOther\<close> for any
  other value), the signing method by its Go type, and the claims. The type assertion
  \<^verbatim>\<open>token.Method.(*jwt.SigningMethodRSA)\<close> succeeds on \<open>SigningMethodRSA\<close> (RS256,
  RS384, RS512) only.
\<close>

datatype SigningMethod =
    SigningMethodRSA string
  | SigningMethodRSAPSS string
  | SigningMethodHMAC string
  | SigningMethodECDSA string
  | SigningMethodEd25519
  | SigningMethodNone

fun isSigningMethodRSA :: "SigningMethod \<Rightarrow> bool" where
  "isSigningMethodRSA (SigningMethodRSA alg) = True"
| "isSigningMethodRSA m = False"

datatype 'mc jwt_Claims = MapClaims 'mc | OtherClaims

record 'mc Token =
  Header :: "string \<rightharpoonup> header_value"
  Method :: SigningMethod
  Claims :: "'mc jwt_Claims"
  Valid :: bool

text \<open>
  The library is a parameter, apart from the order of its steps and its check of the
  expiry. \<open>ParseUnverified\<close> is everything \<^verbatim>\<open>jwt.Parse\<close> does before it calls the
  key function (splitting and decoding the segments, looking up the signing method of the
  \<^verbatim>\<open>alg\<close> header), \<open>Verify\<close> is the signature check of the method with the key
  returned. \<open>GetExpirationTime\<close> reads the \<^verbatim>\<open>exp\<close> claim: an error when it is not a
  number, \<open>None\<close> when it is absent, else its seconds (a \<^verbatim>\<open>NumericDate\<close> is cut to
  whole seconds). \<open>verifyNotBefore\<close> is the library's check of \<^verbatim>\<open>nbf\<close>, with the
  errors it finds.
\<close>

record 'mc jwt_lib =
  ParseUnverified :: "string \<Rightarrow> error + 'mc Token"
  Verify :: "SigningMethod \<Rightarrow> string \<Rightarrow> rsa_PublicKey \<Rightarrow> bool"
  GetExpirationTime :: "'mc jwt_Claims \<Rightarrow> error + 64 word option"
  verifyNotBefore :: "Time \<Rightarrow> 'mc jwt_Claims \<Rightarrow> error list"
  json_Marshal :: "'mc \<Rightarrow> string option"
  json_Unmarshal_Claims :: "string \<Rightarrow> Claims option"

text \<open>
  \<^verbatim>\<open>ValidateIDToken\<close> calls \<^verbatim>\<open>jwt.Parse\<close> without parser options, so the
  validator of golang-jwt v5 runs with its defaults: \<^verbatim>\<open>exp\<close> is optional, and a token
  that carries it is valid only while the validator's reading of the clock is before it
  (\<^verbatim>\<open>cmp.Before(exp.Time)\<close>, no leeway); \<^verbatim>\<open>nbf\<close> is checked next; issued-at,
  issuer, audience and subject are not checked. The errors found are joined.
\<close>

definition verifyExpiresAt :: "'mc jwt_lib \<Rightarrow> Time \<Rightarrow> 'mc jwt_Claims \<Rightarrow> error list" where
  "verifyExpiresAt lib cmp claims =
     (case GetExpirationTime lib claims of
        Inl err \<Rightarrow> [err]
      | Inr None \<Rightarrow> []
      | Inr (Some exp) \<Rightarrow>
          if time_Before cmp (time_Unix0 exp) then [] else [ErrTokenExpired])"

definition Validator_Validate :: "'mc jwt_lib \<Rightarrow> Time \<Rightarrow> 'mc jwt_Claims \<Rightarrow> error list" where
  "Validator_Validate lib lib_now claims =
     verifyExpiresAt lib lib_now claims @ verifyNotBefore lib lib_now claims"

text \<open>
  \<open>jwt_Parse\<close> runs the steps as \<^verbatim>\<open>Parser.ParseWithClaims\<close> does: an error of the
  key function is returned wrapped, the signature is checked, then the claims are
  validated, and the token is marked valid only when every step has passed. \<open>lib_now\<close>
  is the validator's reading of the clock.
\<close>

definition jwt_Parse ::
  "'mc jwt_lib \<Rightarrow> Time \<Rightarrow> string
   \<Rightarrow> ('mc Token \<Rightarrow> TokenManager \<Rightarrow> nat \<Rightarrow> (fault + rsa_PublicKey) \<times> TokenManager \<times> nat)
   \<Rightarrow> TokenManager \<Rightarrow> nat \<Rightarrow> (fault + 'mc Token) \<times> TokenManager \<times> nat" where
  "jwt_Parse lib lib_now tokenString keyFunc tm n =
     (case ParseUnverified lib tokenString of
        Inl e \<Rightarrow> (Inl (Error e), tm, n)
      | Inr token \<Rightarrow>
          (case keyFunc token tm n of
             (Inl f, tm', n') \<Rightarrow> (Inl (wrap ErrTokenUnverifiable f), tm', n')
           | (Inr key, tm', n') \<Rightarrow>
               if \<not> Verify lib (Method token) tokenString key
               then (Inl (Error ErrTokenSignatureInvalid), tm', n')
               else
                 (case Validator_Validate lib lib_now (Claims token) of
                    [] \<Rightarrow> (Inr (token\<lparr>Valid := True\<rparr>), tm', n')
                  | errs \<Rightarrow> (Inl (Error (ErrTokenInvalidClaims errs)), tm', n'))))"

text \<open>
  \<open>keyfunc\<close> is the function literal that \<^verbatim>\<open>ValidateIDToken\<close> passes to
  \<^verbatim>\<open>jwt.Parse\<close>; \<open>validateClaims\<close> is the end of \<^verbatim>\<open>ValidateIDToken\<close>, the three
  checks on the decoded claims, with \<^verbatim>\<open>time.Now()\<close> as the parameter \<open>now\<close>, a
  reading of the clock made after the validator's \<open>lib_now\<close>.
\<close>

definition keyfunc ::
  "env \<Rightarrow> 'mc Token \<Rightarrow> TokenManager \<Rightarrow> nat \<Rightarrow> (fault + rsa_PublicKey) \<times> TokenManager \<times> nat" where
  "keyfunc env token tm n =
     (case Header token ''kid'' of
        Some (HString kid) \<Rightarrow>
          (case getPublicKey env kid tm n of
             (Inl f, tm', n') \<Rightarrow> (Inl (wrap FailedToGetPublicKey f), tm', n')
           | (Inr publicKey, tm', n') \<Rightarrow>
               if \<not> isSigningMethodRSA (Method token)
               then (Inl (Error (UnexpectedSigningMethod (Header token ''alg''))), tm', n')
               else (Inr publicKey, tm', n'))
      | _ \<Rightarrow> (Inl (Error TokenHeaderMissingKid), tm, n))"

definition validateClaims :: "Config \<Rightarrow> Time \<Rightarrow> Claims \<Rightarrow> fault + Claims" where
  "validateClaims cfg now claims =
     (if Claims_Issuer claims \<noteq> Issuer cfg
      then Inl (Error (InvalidIssuer (Issuer cfg) (Claims_Issuer claims)))
      else if Claims_Audience claims \<noteq> ClientID cfg
      then Inl (Error (InvalidAudience (ClientID cfg) (Claims_Audience claims)))
      else if time_Before (time_Unix0 (Claims_Expiry claims)) now
      then Inl (Error TokenHasExpired)
      else Inr claims)"

definition ValidateIDToken ::
  "env \<Rightarrow> 'mc jwt_lib \<Rightarrow> Time \<Rightarrow> Time \<Rightarrow> string \<Rightarrow> TokenManager \<Rightarrow> nat
   \<Rightarrow> (fault + Claims) \<times> TokenManager \<times> nat" where
  "ValidateIDToken env lib lib_now now idToken tm n =
     (case jwt_Parse lib lib_now idToken (keyfunc env) tm n of
        (Inl f, tm', n') \<Rightarrow> (Inl (wrap FailedToParseAndVerify f), tm', n')
      | (Inr token, tm', n') \<Rightarrow>
          if \<not> Valid token then (Inl (Error IDTokenIsInvalid), tm', n')
          else
            (case Claims token of
               OtherClaims \<Rightarrow> (Inl (Error FailedToGetTokenClaims), tm', n')
             | MapClaims claimsMap \<Rightarrow>
                 (case json_Marshal lib claimsMap of
                    None \<Rightarrow> (Inl (Error FailedToMarshalClaims), tm', n')
                  | Some claimsJSON \<Rightarrow>
                      (case json_Unmarshal_Claims lib claimsJSON of
                         None \<Rightarrow> (Inl (Error FailedToUnmarshalClaims), tm', n')
                       | Some claims \<Rightarrow>
                           (validateClaims (config (tm_Client tm')) now claims, tm', n')))))"

subsection \<open>IsTokenExpired (tokens.go)\<close>

text \<open>
  \<^verbatim>\<open>time.Duration(tokenResp.ExpiresIn) * time.Second\<close> is an \<^verbatim>\<open>int64\<close>
  multiplication, which wraps. \<^verbatim>\<open>Time.Add\<close> (with its saturation and its handling of the
  monotonic reading) is the parameter \<open>time_Add\<close>; the current time is the parameter
  \<open>now\<close>.
\<close>

definition IsTokenExpired ::
  "(Time \<Rightarrow> 64 word \<Rightarrow> Time) \<Rightarrow> Time \<Rightarrow> TokenResponse \<Rightarrow> Time \<Rightarrow> bool" where
  "IsTokenExpired time_Add now tokenResp issuedAt =
     (if sint (ExpiresIn tokenResp) \<le> 0 then False
      else let expiryTime = time_Add issuedAt (ExpiresIn tokenResp * 1000000000)
           in time_After now expiryTime)"

subsection \<open>InMemoryTokenStorage (tokens.go)\<close>

text \<open>
  The storage is the Go map \<^verbatim>\<open>tokens map[string]*TokenResponse\<close>. A stored pointer is
  modelled by the token set it points to; no theorem below depends on two names for one
  token set.
\<close>

type_synonym InMemoryTokenStorage = "string \<rightharpoonup> TokenResponse"

definition NewInMemoryTokenStorage :: InMemoryTokenStorage where
  "NewInMemoryTokenStorage = Map.empty"

definition Store ::
  "string \<Rightarrow> TokenResponse \<Rightarrow> InMemoryTokenStorage \<Rightarrow> error option \<times> InMemoryTokenStorage" where
  "Store userID tokens s =
     (if userID = [] then (Some UserIDCannotBeEmpty, s)
      else (None, s(userID \<mapsto> tokens)))"

definition Retrieve ::
  "string \<Rightarrow> InMemoryTokenStorage \<Rightarrow> (error + TokenResponse) \<times> InMemoryTokenStorage" where
  "Retrieve userID s =
     (if userID = [] then (Inl UserIDCannotBeEmpty, s)
      else (case s userID of
              None \<Rightarrow> (Inl TokensNotFoundForUser, s)
            | Some tokens \<Rightarrow> (Inr tokens, s)))"

definition Delete ::
  "string \<Rightarrow> InMemoryTokenStorage \<Rightarrow> error option \<times> InMemoryTokenStorage" where
  "Delete userID s =
     (if userID = [] then (Some UserIDCannotBeEmpty, s)
      else (None, s(userID := None)))"

subsection \<open>TokenRefreshManager (tokens.go)\<close>

text \<open>
  \<^verbatim>\<open>TokenStorage\<close> is an interface: a record of its three methods over a storage
  state \<open>'s\<close>. \<open>InMemory\<close> is the implementation of the package.
\<close>

record 's TokenStorage =
  storage_Store :: "string \<Rightarrow> TokenResponse \<Rightarrow> 's \<Rightarrow> error option \<times> 's"
  storage_Retrieve :: "string \<Rightarrow> 's \<Rightarrow> (error + TokenResponse) \<times> 's"
  storage_Delete :: "string \<Rightarrow> 's \<Rightarrow> error option \<times> 's"

definition InMemory :: "InMemoryTokenStorage TokenStorage" where
  "InMemory = \<lparr>storage_Store = Store, storage_Retrieve = Retrieve, storage_Delete = Delete\<rparr>"

record 's TokenRefreshManager =
  trm_Client :: Client
  storage :: "'s TokenStorage"

definition NewTokenRefreshManager :: "Client \<Rightarrow> 's TokenStorage \<Rightarrow> 's TokenRefreshManager" where
  "NewTokenRefreshManager client st = \<lparr>trm_Client = client, storage = st\<rparr>"

definition GetValidToken ::
  "env \<Rightarrow> 's TokenRefreshManager \<Rightarrow> string \<Rightarrow> 's \<Rightarrow> nat \<Rightarrow> (error + TokenResponse) \<times> 's \<times> nat" where
  "GetValidToken env trm userID s n =
     (case storage_Retrieve (storage trm) userID s of
        (Inl err, s1) \<Rightarrow> (Inl (FailedToRetrieveTokens err), s1, n)
      | (Inr tokens, s1) \<Rightarrow>
          if RefreshToken tokens \<noteq> [] then
            (case Client_RefreshToken env (trm_Client trm) (RefreshToken tokens) n of
               (Inl err, n1) \<Rightarrow> (Inl (FailedToRefreshToken err), s1, n1)
             | (Inr newTokens, n1) \<Rightarrow>
                 let newTokens' =
                       (if RefreshToken newTokens = []
                        then newTokens\<lparr>RefreshToken := RefreshToken tokens\<rparr>
                        else newTokens)
                 in (case storage_Store (storage trm) userID newTokens' s1 of
                       (Some err, s2) \<Rightarrow> (Inl (FailedToStoreRefreshedTokens err), s2, n1)
                     | (None, s2) \<Rightarrow> (Inr newTokens', s2, n1)))
          else (Inr tokens, s1, n))"

subsection \<open>Concrete inputs\<close>

text \<open>A client, keys, token sets and a provider, for the theorems at concrete inputs.\<close>

definition cfg0 :: Config where
  "cfg0 = \<lparr>ClientID = ''my-client'', ClientSecret = ''my-secret'',
           RedirectURL = ''http://localhost:8080/callback'',
           Issuer = ''https://auth.civic.com'',
           Scopes = [''openid'', ''profile'', ''email'']\<rparr>"

definition provider0 :: OIDCProvider where
  "provider0 = \<lparr>provider_Issuer = ''https://auth.civic.com'',
                AuthorizationEndpoint = ''https://auth.civic.com/authorize'',
                TokenEndpoint = ''https://auth.civic.com/token'',
                UserinfoEndpoint = ''https://auth.civic.com/userinfo'',
                JwksURI = ''https://auth.civic.com/jwks'',
                EndSessionEndpoint = []\<rparr>"

definition client0 :: Client where
  "client0 = \<lparr>config = cfg0, provider = Some provider0\<rparr>"

definition key0 :: rsa_PublicKey where
  "key0 = \<lparr>rsa_N = Some 3233, rsa_E = 17\<rparr>"

definition key1 :: rsa_PublicKey where
  "key1 = \<lparr>rsa_N = Some 2773, rsa_E = 17\<rparr>"

definition jwk0 :: JWK where
  "jwk0 = \<lparr>Kty = ''RSA'', Use = ''sig'', Kid = ''k0'', X5t = [],
           jwk_N = [], jwk_E = [], X5c = [''cert0'']\<rparr>"

definition jwk1 :: JWK where
  "jwk1 = \<lparr>Kty = ''RSA'', Use = ''sig'', Kid = ''k1'', X5t = [],
           jwk_N = [], jwk_E = [], X5c = [''cert1'']\<rparr>"

definition keys1 :: JWKSet where
  "keys1 = \<lparr>Keys = [jwk0]\<rparr>"

definition keys2 :: JWKSet where
  "keys2 = \<lparr>Keys = [jwk0, jwk1]\<rparr>"

definition tokens0 :: TokenResponse where
  "tokens0 = \<lparr>AccessToken = ''at-1'', RefreshToken = ''rt-1'', IDToken = [],
              TokenType = ''Bearer'', ExpiresIn = 3600, Scope = ''openid''\<rparr>"

definition tokens1 :: TokenResponse where
  "tokens1 = \<lparr>AccessToken = ''at-2'', RefreshToken = [], IDToken = [],
              TokenType = ''Bearer'', ExpiresIn = 3600, Scope = ''openid''\<rparr>"

text \<open>
  A provider that publishes the key \<open>k0\<close> at first and the keys \<open>k0\<close> and \<open>k1\<close> from
  the second request on, and whose token endpoint answers the refresh token \<open>rt-1\<close>
  with a token set without refresh token and any other one with status 400.
\<close>

definition env0 :: env where
  "env0 =
     \<lparr>base64_StdEncoding_DecodeString =
        (\<lambda>s. if s = ''cert0'' then Some [0] else if s = ''cert1'' then Some [1] else None),
      x509_ParseCertificate =
        (\<lambda>b. if b = [0] then Some \<lparr>PublicKey = RSAPublicKey key0\<rparr>
              else if b = [1] then Some \<lparr>PublicKey = RSAPublicKey key1\<rparr> else None),
      json_Unmarshal_JWKSet =
        (\<lambda>b. if b = ''keys-1'' then Some keys1
              else if b = ''keys-2'' then Some keys2 else None),
      json_Unmarshal_TokenResponse = (\<lambda>b. if b = ''tokens-1'' then Some tokens1 else None),
      http_NewRequest = (\<lambda>m u. True),
      http_Do =
        (\<lambda>n req.
           if req_method req = ''GET''
           then Some \<lparr>StatusCode = 200, Body = Some (if n = 0 then ''keys-1'' else ''keys-2'')\<rparr>
           else if (''refresh_token'', ''rt-1'') \<in> set (req_form req)
           then Some \<lparr>StatusCode = 200, Body = Some ''tokens-1''\<rparr>
           else Some \<lparr>StatusCode = 400, Body = Some ''invalid_grant''\<rparr>)\<rparr>"

text \<open>A client configured with another issuer.\<close>

definition client_iss :: Client where
  "client_iss = \<lparr>config = cfg0\<lparr>Issuer := ''https://login.example.com''\<rparr>,
                 provider = Some provider0\<rparr>"

text \<open>The manager after a first look-up of \<open>k0\<close> with this provider.\<close>

definition tm_after_k0 :: TokenManager where
  "tm_after_k0 = \<lparr>tm_Client = client0, jwkSet = Some keys1, jwkCache = [''k0'' \<mapsto> key0]\<rparr>"

text \<open>
  Tokens as the library parses them: \<open>tok-rs256\<close> is signed with \<open>k0\<close> and RS256,
  \<open>tok-hs256\<close> declares HS256 and the key id \<open>k0\<close>, \<open>tok-none\<close> declares no
  signature and the unknown key id \<open>k9\<close>. The claims of a token are kept as their JSON
  text. The claims \<open>claims-0\<close> expire at Unix time 1700000000 and carry no
  \<^verbatim>\<open>nbf\<close>; \<open>now0\<close> is the instant one hour before, \<open>now1\<close> the instant one
  second after.
\<close>

definition claims0 :: Claims where
  "claims0 =
     \<lparr>Claims_Issuer = ''https://auth.civic.com'', Claims_Subject = ''user123'',
      Claims_Audience = ''my-client'', Claims_Expiry = 1700000000,
      Claims_IssuedAt = 1699996400, Claims_Nonce = [], Claims_AuthTime = 0,
      Claims_SessionState = [], Claims_Name = [], Claims_GivenName = [],
      Claims_FamilyName = [], Claims_MiddleName = [], Claims_Nickname = [],
      Claims_PreferredUsername = [], Claims_Profile = [], Claims_Picture = [],
      Claims_Website = [], Claims_Email = [], Claims_EmailVerified = False,
      Claims_Gender = [], Claims_Birthdate = [], Claims_Zoneinfo = [], Claims_Locale = [],
      Claims_PhoneNumber = [], Claims_PhoneVerified = False, Claims_UpdatedAt = 0\<rparr>"

definition tok_rs256 :: "string Token" where
  "tok_rs256 =
     \<lparr>Header = [''alg'' \<mapsto> HString ''RS256'', ''kid'' \<mapsto> HString ''k0''],
      Method = SigningMethodRSA ''RS256'', Claims = MapClaims ''claims-0'', Valid = False\<rparr>"

definition tok_hs256 :: "string Token" where
  "tok_hs256 =
     \<lparr>Header = [''alg'' \<mapsto> HString ''HS256'', ''kid'' \<mapsto> HString ''k0''],
      Method = SigningMethodHMAC ''HS256'', Claims = MapClaims ''claims-0'', Valid = False\<rparr>"

definition tok_none :: "string Token" where
  "tok_none =
     \<lparr>Header = [''alg'' \<mapsto> HString ''none'', ''kid'' \<mapsto> HString ''k9''],
      Method = SigningMethodNone, Claims = MapClaims ''claims-0'', Valid = False\<rparr>"

definition lib0 :: "string jwt_lib" where
  "lib0 =
     \<lparr>ParseUnverified =
        (\<lambda>s. if s = ''tok-rs256'' then Inr tok_rs256
              else if s = ''tok-hs256'' then Inr tok_hs256
              else if s = ''tok-none'' then Inr tok_none
              else Inl ErrTokenMalformed),
      Verify = (\<lambda>m s k. s = ''tok-rs256'' \<and> k = key0),
      GetExpirationTime =
        (\<lambda>c. if c = MapClaims ''claims-0'' then Inr (Some 1700000000) else Inr None),
      verifyNotBefore = (\<lambda>t c. []),
      json_Marshal = (\<lambda>m. Some m),
      json_Unmarshal_Claims = (\<lambda>s. if s = ''claims-0'' then Some claims0 else None)\<rparr>"

definition now0 :: Time where
  "now0 = \<lparr>sec = 63835593200, nsec = 0, mono = Some 5000000\<rparr>"

definition now1 :: Time where
  "now1 = \<lparr>sec = 63835596801, nsec = 0, mono = Some 3601005000000\<rparr>"

section \<open>Theorems\<close>

subsection \<open>Storage round trip\<close>

text \<open>
  C9. For every non-empty user id and every token set \<open>T\<close>, on every storage state,
  \<open>Store\<close> succeeds and a following \<open>Retrieve\<close> of the same user returns \<open>T\<close>;
  \<open>Delete\<close> succeeds and a following \<open>Retrieve\<close> fails with the not-found error.
\<close>

theorem store_retrieve_delete_roundtrip:
  assumes "userID \<noteq> []"
  shows "fst (Store userID T s) = None
       \<and> fst (Retrieve userID (snd (Store userID T s))) = Inr T
       \<and> fst (Delete userID s) = None
       \<and> fst (Retrieve userID (snd (Delete userID s))) = Inl TokensNotFoundForUser"
  using assms by (simp add: Store_def Retrieve_def Delete_def)

theorem store_retrieve_delete_roundtrip_witness:
  "fst (Store ''user123''
          \<lparr>AccessToken = ''test-access-token'', RefreshToken = ''test-refresh-token'',
           IDToken = [], TokenType = ''Bearer'', ExpiresIn = 3600, Scope = []\<rparr>
          NewInMemoryTokenStorage) = None
   \<and> fst (Retrieve ''user123'' (snd (Store ''user123''
          \<lparr>AccessToken = ''test-access-token'', RefreshToken = ''test-refresh-token'',
           IDToken = [], TokenType = ''Bearer'', ExpiresIn = 3600, Scope = []\<rparr>
          NewInMemoryTokenStorage)))
       = Inr \<lparr>AccessToken = ''test-access-token'', RefreshToken = ''test-refresh-token'',
           IDToken = [], TokenType = ''Bearer'', ExpiresIn = 3600, Scope = []\<rparr>
   \<and> fst (Delete ''user123'' NewInMemoryTokenStorage) = None
   \<and> fst (Retrieve ''user123'' (snd (Delete ''user123'' NewInMemoryTokenStorage)))
       = Inl TokensNotFoundForUser"
  using store_retrieve_delete_roundtrip [of "''user123''"] by simp

subsection \<open>Token sets without expiry information\<close>

text \<open>
  C10. For every token response whose \<open>expires_in\<close> is at most zero, \<open>IsTokenExpired\<close>
  is false for every issue time (and every current time, whatever \<open>Time.Add\<close> computes).
\<close>

theorem IsTokenExpired_no_expiry_info:
  assumes "sint (ExpiresIn tokenResp) \<le> 0"
  shows "IsTokenExpired time_Add now tokenResp issuedAt = False"
  using assms by (simp add: IsTokenExpired_def)

theorem IsTokenExpired_no_expiry_info_witness:
  "sint (ExpiresIn \<lparr>AccessToken = [], RefreshToken = [], IDToken = [], TokenType = [],
                    ExpiresIn = 0, Scope = []\<rparr>) \<le> 0
   \<and> IsTokenExpired (\<lambda>t d. t) \<lparr>sec = 63835596800, nsec = 0, mono = None\<rparr>
        \<lparr>AccessToken = [], RefreshToken = [], IDToken = [], TokenType = [],
         ExpiresIn = 0, Scope = []\<rparr>
        \<lparr>sec = 63835510400, nsec = 0, mono = None\<rparr> = False"
  using IsTokenExpired_no_expiry_info
    [of "\<lparr>AccessToken = [], RefreshToken = [], IDToken = [], TokenType = [],
          ExpiresIn = 0, Scope = []\<rparr>" "\<lambda>t d. t"
        "\<lparr>sec = 63835596800, nsec = 0, mono = None\<rparr>"
        "\<lparr>sec = 63835510400, nsec = 0, mono = None\<rparr>"]
  by simp

subsection \<open>Helper lemmas: base64 and random source\<close>

lemma length_encodeURL: "length encodeURL = 64"
  by (simp add: encodeURL_def)

lemma encodeURL_url_safe: "list_all url_safe encodeURL"
  by (simp add: encodeURL_def url_safe_def)

lemma encode_at_url_safe: "url_safe (encode_at v)"
proof -
  have "unat (v AND 0x3F) \<le> unat (0x3F :: 64 word)"
    by (rule word_and_le1 [THEN word_le_nat_alt [THEN iffD1]])
  then have "unat (v AND 0x3F) < length encodeURL"
    by (simp add: length_encodeURL)
  then have "encodeURL ! unat (v AND 0x3F) \<in> set encodeURL"
    by (rule nth_mem)
  with encodeURL_url_safe show ?thesis
    by (simp add: encode_at_def list_all_iff)
qed

lemma Encode_url_safe: "list_all url_safe (RawURLEncoding_Encode src)"
  by (induction src rule: RawURLEncoding_Encode.induct)
     (simp_all add: Let_def encode_at_url_safe)

lemma length_Encode: "length (RawURLEncoding_Encode src) = (length src * 8 + 5) div 6"
  by (induction src rule: RawURLEncoding_Encode.induct) (simp_all add: Let_def)

lemma length_rand_Read: "rand_Read rnd n = Inr b \<Longrightarrow> length b = n"
  by (auto simp: rand_Read_def split: rand_source.splits)

subsection \<open>PKCE pairs\<close>

text \<open>
  C5. For every pair returned by a successful \<open>generateCodeChallenge\<close>, the challenge is
  the unpadded URL-safe base64 encoding of the SHA-256 digest of the verifier, and the
  verifier is a string of URL-safe characters whose length lies between 43 and 128.
\<close>

theorem generateCodeChallenge_pkce:
  assumes "generateCodeChallenge sha256_Sum256 rnd = Inr (codeVerifier, codeChallenge)"
  shows "codeChallenge
           = RawURLEncoding_EncodeToString (sha256_Sum256 (bytes_of_string codeVerifier))
       \<and> 43 \<le> length codeVerifier \<and> length codeVerifier \<le> 128
       \<and> list_all url_safe codeVerifier"
proof -
  from assms obtain b where b: "rand_Read rnd 32 = Inr b"
    and v: "codeVerifier = RawURLEncoding_EncodeToString b"
    and c: "codeChallenge
              = RawURLEncoding_EncodeToString (sha256_Sum256 (bytes_of_string codeVerifier))"
    by (auto simp: generateCodeChallenge_def Let_def split: sum.splits)
  from b have "length b = 32" by (rule length_rand_Read)
  then have "length codeVerifier = 43"
    by (simp add: v RawURLEncoding_EncodeToString_def length_Encode)
  moreover have "list_all url_safe codeVerifier"
    by (simp add: v RawURLEncoding_EncodeToString_def Encode_url_safe)
  ultimately show ?thesis using c by simp
qed

theorem generateCodeChallenge_pkce_witness:
  "generateCodeChallenge (take 32) (RandBytes (\<lambda>i. 0))
     = Inr (''AAAAAAAAAAAAAAAAAAAAAAAAAAAAAAAAAAAAAAAAAAA'',
            ''QUFBQUFBQUFBQUFBQUFBQUFBQUFBQUFBQUFBQUFBQUE'')
   \<and> ''QUFBQUFBQUFBQUFBQUFBQUFBQUFBQUFBQUFBQUFBQUE''
       = RawURLEncoding_EncodeToString
           (take 32 (bytes_of_string ''AAAAAAAAAAAAAAAAAAAAAAAAAAAAAAAAAAAAAAAAAAA''))
   \<and> 43 \<le> length ''AAAAAAAAAAAAAAAAAAAAAAAAAAAAAAAAAAAAAAAAAAA''
   \<and> length ''AAAAAAAAAAAAAAAAAAAAAAAAAAAAAAAAAAAAAAAAAAA'' \<le> 128
   \<and> list_all url_safe ''AAAAAAAAAAAAAAAAAAAAAAAAAAAAAAAAAAAAAAAAAAA''"
proof -
  have h: "generateCodeChallenge (take 32) (RandBytes (\<lambda>i. 0))
     = Inr (''AAAAAAAAAAAAAAAAAAAAAAAAAAAAAAAAAAAAAAAAAAA'',
            ''QUFBQUFBQUFBQUFBQUFBQUFBQUFBQUFBQUFBQUFBQUE'')"
    by code_simp
  from generateCodeChallenge_pkce [OF h] h show ?thesis by simp
qed

subsection \<open>State values\<close>

text \<open>
  C6, as the code has it. Every state value returned by a successful \<open>generateState\<close>
  is the encoding of 16 random bytes: it has exactly 22 characters, all of them
  URL-safe.
\<close>

theorem generateState_length:
  assumes "generateState rnd = Inr state"
  shows "length state = 22 \<and> list_all url_safe state"
proof -
  from assms obtain b where b: "rand_Read rnd 16 = Inr b"
    and s: "state = RawURLEncoding_EncodeToString b"
    by (auto simp: generateState_def split: sum.splits)
  from b have "length b = 16" by (rule length_rand_Read)
  then show ?thesis
    by (simp add: s RawURLEncoding_EncodeToString_def length_Encode Encode_url_safe)
qed

theorem generateState_length_witness:
  "generateState (RandBytes (\<lambda>i. of_nat (i * 37 + 11))) = Inr ''CzBVep_E6Q4zWH2ix-wRNg''
   \<and> length ''CzBVep_E6Q4zWH2ix-wRNg'' = 22
   \<and> list_all url_safe ''CzBVep_E6Q4zWH2ix-wRNg''"
proof -
  have h: "generateState (RandBytes (\<lambda>i. of_nat (i * 37 + 11))) = Inr ''CzBVep_E6Q4zWH2ix-wRNg''"
    by code_simp
  from generateState_length [OF h] h show ?thesis by simp
qed

text \<open>The state generated from sixteen zero bytes has 22 characters, fewer than 43.\<close>

theorem generateState_short_counterexample:
  "generateState (RandBytes (\<lambda>i. 0)) = Inr ''AAAAAAAAAAAAAAAAAAAAAA''
   \<and> \<not> 43 \<le> length ''AAAAAAAAAAAAAAAAAAAAAA''"
  by code_simp

subsection \<open>Key conversion\<close>

text \<open>
  Without a certificate chain no key is ever returned: the conversion fails with an
  error or panics.
\<close>

lemma jwkToRSAPublicKey_no_x5c_no_key:
  assumes "X5c jwk = []"
  shows "jwkToRSAPublicKey env jwk \<noteq> Inr key"
  using assms
  by (simp add: jwkToRSAPublicKey_def big_Int_SetBytes_def new_rsa_PublicKey_def
        split: option.splits)

text \<open>
  C4, at a JWK that carries a modulus and an exponent and no certificate chain: the
  conversion does not return the reconstructed key; \<^verbatim>\<open>SetBytes\<close> is called on the nil
  \<^verbatim>\<open>N\<close> of a fresh \<^verbatim>\<open>rsa.PublicKey\<close> and panics.
\<close>

theorem jwkToRSAPublicKey_modulus_exponent_panics:
  "jwkToRSAPublicKey env
     \<lparr>Kty = ''RSA'', Use = ''sig'', Kid = ''k1'', X5t = [],
      jwk_N = ''AQAB'', jwk_E = ''AQAB'', X5c = []\<rparr>
   = Inl (Panic NilPointerDereference)"
  by (simp add: jwkToRSAPublicKey_def RawURLEncoding_DecodeString_def decodeMap_def
        encodeURL_def big_Int_SetBytes_def new_rsa_PublicKey_def)

subsection \<open>Token refresh\<close>

text \<open>
  C7. For every user whose stored token set has a non-empty refresh token, when the
  refresh succeeds and the provider's answer has no refresh token, \<open>GetValidToken\<close>
  (over the in-memory storage) copies the previous refresh token into the new token set,
  stores the merged token set under the user and returns it; a following \<open>Retrieve\<close>
  yields the merged token set, with the previous refresh token.
\<close>

theorem GetValidToken_keeps_refresh_token:
  assumes "fst (Retrieve userID s) = Inr tokens"
    and "RefreshToken tokens \<noteq> []"
    and "Client_RefreshToken env client (RefreshToken tokens) n = (Inr newTokens, n')"
    and "RefreshToken newTokens = []"
  shows "GetValidToken env (NewTokenRefreshManager client InMemory) userID s n
           = (Inr (newTokens\<lparr>RefreshToken := RefreshToken tokens\<rparr>),
              s(userID \<mapsto> newTokens\<lparr>RefreshToken := RefreshToken tokens\<rparr>), n')
       \<and> fst (Retrieve userID
                (fst (snd (GetValidToken env (NewTokenRefreshManager client InMemory) userID s n))))
           = Inr (newTokens\<lparr>RefreshToken := RefreshToken tokens\<rparr>)"
proof -
  from assms(1) have u: "userID \<noteq> []" and r: "Retrieve userID s = (Inr tokens, s)"
    by (auto simp: Retrieve_def split: if_splits option.splits)
  from u r assms(2-4) show ?thesis
    by (simp add: GetValidToken_def NewTokenRefreshManager_def InMemory_def Store_def
          Retrieve_def Let_def)
qed

theorem GetValidToken_keeps_refresh_token_witness:
  "fst (Retrieve ''user123'' [''user123'' \<mapsto> tokens0]) = Inr tokens0
   \<and> RefreshToken tokens0 \<noteq> []
   \<and> Client_RefreshToken env0 client0 (RefreshToken tokens0) 0 = (Inr tokens1, 1)
   \<and> RefreshToken tokens1 = []
   \<and> GetValidToken env0 (NewTokenRefreshManager client0 InMemory) ''user123''
        [''user123'' \<mapsto> tokens0] 0
       = (Inr (tokens1\<lparr>RefreshToken := RefreshToken tokens0\<rparr>),
          [''user123'' \<mapsto> tokens0](''user123'' \<mapsto> tokens1\<lparr>RefreshToken := RefreshToken tokens0\<rparr>), 1)
   \<and> fst (Retrieve ''user123''
            (fst (snd (GetValidToken env0 (NewTokenRefreshManager client0 InMemory) ''user123''
                         [''user123'' \<mapsto> tokens0] 0))))
       = Inr (tokens1\<lparr>RefreshToken := RefreshToken tokens0\<rparr>)"
proof -
  have h1: "fst (Retrieve ''user123'' [''user123'' \<mapsto> tokens0]) = Inr tokens0"
    by (simp add: Retrieve_def)
  have h2: "RefreshToken tokens0 \<noteq> []"
    by (simp add: tokens0_def)
  have h3: "Client_RefreshToken env0 client0 (RefreshToken tokens0) 0 = (Inr tokens1, 1)"
    by (simp add: Client_RefreshToken_def env0_def client0_def provider0_def tokens0_def Let_def)
  have h4: "RefreshToken tokens1 = []"
    by (simp add: tokens1_def)
  from GetValidToken_keeps_refresh_token [OF h1 h2 h3 h4] h1 h2 h3 h4 show ?thesis
    by (simp add: Retrieve_def)
qed

text \<open>
  C8. For every user whose stored token set has a non-empty refresh token, when the
  refresh fails, \<open>GetValidToken\<close> returns the refresh error (wrapped) and the storage is
  the one it started from.
\<close>

theorem GetValidToken_refresh_failure:
  assumes "fst (Retrieve userID s) = Inr tokens"
    and "RefreshToken tokens \<noteq> []"
    and "Client_RefreshToken env client (RefreshToken tokens) n = (Inl err, n')"
  shows "GetValidToken env (NewTokenRefreshManager client InMemory) userID s n
           = (Inl (FailedToRefreshToken err), s, n')"
proof -
  from assms(1) have r: "Retrieve userID s = (Inr tokens, s)"
    by (auto simp: Retrieve_def split: if_splits option.splits)
  from r assms(2,3) show ?thesis
    by (simp add: GetValidToken_def NewTokenRefreshManager_def InMemory_def)
qed

theorem GetValidToken_refresh_failure_witness:
  "fst (Retrieve ''user123'' [''user123'' \<mapsto> tokens0\<lparr>RefreshToken := ''rt-revoked''\<rparr>])
     = Inr (tokens0\<lparr>RefreshToken := ''rt-revoked''\<rparr>)
   \<and> RefreshToken (tokens0\<lparr>RefreshToken := ''rt-revoked''\<rparr>) \<noteq> []
   \<and> Client_RefreshToken env0 client0 (RefreshToken (tokens0\<lparr>RefreshToken := ''rt-revoked''\<rparr>)) 0
       = (Inl (TokenRefreshFailedWithStatus 400 ''invalid_grant''), 1)
   \<and> GetValidToken env0 (NewTokenRefreshManager client0 InMemory) ''user123''
        [''user123'' \<mapsto> tokens0\<lparr>RefreshToken := ''rt-revoked''\<rparr>] 0
       = (Inl (FailedToRefreshToken (TokenRefreshFailedWithStatus 400 ''invalid_grant'')),
          [''user123'' \<mapsto> tokens0\<lparr>RefreshToken := ''rt-revoked''\<rparr>], 1)"
proof -
  have h1: "fst (Retrieve ''user123'' [''user123'' \<mapsto> tokens0\<lparr>RefreshToken := ''rt-revoked''\<rparr>])
     = Inr (tokens0\<lparr>RefreshToken := ''rt-revoked''\<rparr>)"
    by (simp add: Retrieve_def)
  have h2: "RefreshToken (tokens0\<lparr>RefreshToken := ''rt-revoked''\<rparr>) \<noteq> []"
    by simp
  have h3: "Client_RefreshToken env0 client0 (RefreshToken (tokens0\<lparr>RefreshToken := ''rt-revoked''\<rparr>)) 0
       = (Inl (TokenRefreshFailedWithStatus 400 ''invalid_grant''), 1)"
    by (simp add: Client_RefreshToken_def env0_def client0_def provider0_def Let_def)
  from GetValidToken_refresh_failure [OF h1 h2 h3] h1 h2 h3 show ?thesis
    by simp
qed

subsection \<open>Key look-up on a cache miss\<close>

text \<open>A fetch that returns no error has replaced the key set held and sent one request.\<close>

lemma fetchJWKSet_ok:
  assumes "fetchJWKSet env tm n = (None, tm', n')"
  shows "\<exists>ks. tm' = tm\<lparr>jwkSet := Some ks\<rparr> \<and> n' = Suc n"
  using assms
  by (auto simp: fetchJWKSet_def split: option.splits if_splits)








subsection \<open>Tokens that do not declare an RSA signature\<close>

text \<open>The key function fails on such a token, after the key look-up when the header
  has a key id.\<close>

lemma keyfunc_non_RSA:
  assumes "\<not> isSigningMethodRSA (Method token)"
  shows "isl (fst (keyfunc env token tm n))"
  using assms
  by (simp add: keyfunc_def split: option.splits header_value.splits prod.splits sum.splits)

lemma keyfunc_kid:
  assumes "Header token ''kid'' = Some (HString kid)"
  shows "snd (keyfunc env token tm n) = snd (getPublicKey env kid tm n)"
  using assms by (simp add: keyfunc_def split: prod.splits sum.splits)

lemma ValidateIDToken_keyfunc_error:
  assumes "ParseUnverified lib idToken = Inr token"
    and "keyfunc env token tm n = (Inl f, tm', n')"
  shows "ValidateIDToken env lib lib_now now idToken tm n
           = (Inl (wrap FailedToParseAndVerify (wrap ErrTokenUnverifiable f)), tm', n')"
  using assms by (simp add: ValidateIDToken_def jwt_Parse_def)

text \<open>
  C1, as the code has it. For every ID token that parses and whose signing method is
  not \<^verbatim>\<open>SigningMethodRSA\<close>, \<open>ValidateIDToken\<close> never returns claims. The method is
  checked in the key function, after the key id has been read from the header and the
  key has been resolved by \<open>getPublicKey\<close>: the manager and the number of requests sent
  after the call are those \<open>getPublicKey\<close> leaves; when the key resolves, the call
  fails with the unexpected-signing-method error, and when the key look-up returns an
  error, with that error.
\<close>

theorem ValidateIDToken_rejects_non_RSA:
  assumes "ParseUnverified lib idToken = Inr token"
    and "\<not> isSigningMethodRSA (Method token)"
  shows "isl (fst (ValidateIDToken env lib lib_now now idToken tm n))
       \<and> (Header token ''kid'' = Some (HString kid)
            \<longrightarrow> snd (ValidateIDToken env lib lib_now now idToken tm n) = snd (getPublicKey env kid tm n))
       \<and> (Header token ''kid'' = Some (HString kid)
            \<and> fst (getPublicKey env kid tm n) = Inr key
            \<longrightarrow> fst (ValidateIDToken env lib lib_now now idToken tm n)
                = Inl (Error (FailedToParseAndVerify (ErrTokenUnverifiable
                    (UnexpectedSigningMethod (Header token ''alg''))))))
       \<and> (Header token ''kid'' = Some (HString kid)
            \<and> fst (getPublicKey env kid tm n) = Inl (Error e)
            \<longrightarrow> fst (ValidateIDToken env lib lib_now now idToken tm n)
                = Inl (Error (FailedToParseAndVerify (ErrTokenUnverifiable
                    (FailedToGetPublicKey e)))))"
proof -
  obtain f tm' n' where k: "keyfunc env token tm n = (Inl f, tm', n')"
    using keyfunc_non_RSA [OF assms(2), of env tm n]
    by (cases "keyfunc env token tm n") (auto simp: isl_def)
  have v: "ValidateIDToken env lib lib_now now idToken tm n
           = (Inl (wrap FailedToParseAndVerify (wrap ErrTokenUnverifiable f)), tm', n')"
    using assms(1) k by (rule ValidateIDToken_keyfunc_error)
  have 1: "isl (fst (ValidateIDToken env lib lib_now now idToken tm n))"
    by (simp add: v)
  have 2: "snd (ValidateIDToken env lib lib_now now idToken tm n) = snd (getPublicKey env kid tm n)"
    if "Header token ''kid'' = Some (HString kid)"
    using keyfunc_kid [OF that, of env tm n] by (simp add: v k)
  have 3: "fst (ValidateIDToken env lib lib_now now idToken tm n)
             = Inl (Error (FailedToParseAndVerify (ErrTokenUnverifiable
                 (UnexpectedSigningMethod (Header token ''alg'')))))"
    if "Header token ''kid'' = Some (HString kid)" "fst (getPublicKey env kid tm n) = Inr key"
    using that k assms(2) by (auto simp: v keyfunc_def split: prod.splits)
  have 4: "fst (ValidateIDToken env lib lib_now now idToken tm n)
             = Inl (Error (FailedToParseAndVerify (ErrTokenUnverifiable (FailedToGetPublicKey e))))"
    if "Header token ''kid'' = Some (HString kid)" "fst (getPublicKey env kid tm n) = Inl (Error e)"
    using that k by (auto simp: v keyfunc_def split: prod.splits)
  from 1 2 3 4 show ?thesis by blast
qed

text \<open>The two look-ups of the concrete provider, from a new manager.\<close>

lemma getPublicKey_k0:
  "getPublicKey env0 ''k0'' (NewTokenManager client0) 0 = (Inr key0, tm_after_k0, 1)"
  by (simp add: getPublicKey_def getPublicKey_convert_def jwkToRSAPublicKey_def fetchJWKSet_def
        env0_def NewTokenManager_def client0_def provider0_def tm_after_k0_def jwk0_def
        keys1_def)

lemma getPublicKey_k9:
  "getPublicKey env0 ''k9'' (NewTokenManager client0) 0
     = (Inl (Error (KeyNotFound ''k9'')), (NewTokenManager client0)\<lparr>jwkSet := Some keys2\<rparr>, 2)"
  by (simp add: getPublicKey_def fetchJWKSet_def
        env0_def NewTokenManager_def client0_def provider0_def jwk0_def jwk1_def
        keys1_def keys2_def)

theorem ValidateIDToken_rejects_non_RSA_witness:
  "ParseUnverified lib0 ''tok-hs256'' = Inr tok_hs256
   \<and> \<not> isSigningMethodRSA (Method tok_hs256)
   \<and> Header tok_hs256 ''kid'' = Some (HString ''k0'')
   \<and> fst (getPublicKey env0 ''k0'' (NewTokenManager client0) 0) = Inr key0
   \<and> isl (fst (ValidateIDToken env0 lib0 now0 now0 ''tok-hs256'' (NewTokenManager client0) 0))
   \<and> snd (ValidateIDToken env0 lib0 now0 now0 ''tok-hs256'' (NewTokenManager client0) 0)
       = snd (getPublicKey env0 ''k0'' (NewTokenManager client0) 0)
   \<and> fst (ValidateIDToken env0 lib0 now0 now0 ''tok-hs256'' (NewTokenManager client0) 0)
       = Inl (Error (FailedToParseAndVerify (ErrTokenUnverifiable
           (UnexpectedSigningMethod (Header tok_hs256 ''alg'')))))
   \<and> ParseUnverified lib0 ''tok-none'' = Inr tok_none
   \<and> \<not> isSigningMethodRSA (Method tok_none)
   \<and> Header tok_none ''kid'' = Some (HString ''k9'')
   \<and> fst (getPublicKey env0 ''k9'' (NewTokenManager client0) 0)
       = Inl (Error (KeyNotFound ''k9''))
   \<and> fst (ValidateIDToken env0 lib0 now0 now0 ''tok-none'' (NewTokenManager client0) 0)
       = Inl (Error (FailedToParseAndVerify (ErrTokenUnverifiable
           (FailedToGetPublicKey (KeyNotFound ''k9'')))))"
proof -
  have p1: "ParseUnverified lib0 ''tok-hs256'' = Inr tok_hs256"
    and p2: "ParseUnverified lib0 ''tok-none'' = Inr tok_none"
    by (simp_all add: lib0_def)
  have m1: "\<not> isSigningMethodRSA (Method tok_hs256)"
    and h1: "Header tok_hs256 ''kid'' = Some (HString ''k0'')"
    by (simp_all add: tok_hs256_def)
  have m2: "\<not> isSigningMethodRSA (Method tok_none)"
    and h2: "Header tok_none ''kid'' = Some (HString ''k9'')"
    by (simp_all add: tok_none_def)
  have g1: "fst (getPublicKey env0 ''k0'' (NewTokenManager client0) 0) = Inr key0"
    by (simp add: getPublicKey_k0)
  have g2: "fst (getPublicKey env0 ''k9'' (NewTokenManager client0) 0)
       = Inl (Error (KeyNotFound ''k9''))"
    by (simp add: getPublicKey_k9)
  note A = ValidateIDToken_rejects_non_RSA
             [OF p1 m1, of env0 now0 now0 "NewTokenManager client0" 0 "''k0''" key0]
  note B = ValidateIDToken_rejects_non_RSA
             [OF p2 m2, of env0 now0 now0 "NewTokenManager client0" 0 "''k9''" _ "KeyNotFound ''k9''"]
  from A B p1 p2 m1 m2 h1 h2 g1 g2 show ?thesis by blast
qed

text \<open>
  The HS256 token with key id \<open>k0\<close>, validated by a new manager: when the call returns
  its error, one request for the key set has been sent, the key set is held and the key
  \<open>k0\<close> is in the cache. The key was resolved before the token was rejected.
\<close>

theorem ValidateIDToken_resolves_key_first_counterexample:
  "ParseUnverified lib0 ''tok-hs256'' = Inr tok_hs256
   \<and> Method tok_hs256 = SigningMethodHMAC ''HS256''
   \<and> jwkSet (NewTokenManager client0) = None
   \<and> jwkCache (NewTokenManager client0) ''k0'' = None
   \<and> ValidateIDToken env0 lib0 now0 now0 ''tok-hs256'' (NewTokenManager client0) 0
       = (Inl (Error (FailedToParseAndVerify (ErrTokenUnverifiable
            (UnexpectedSigningMethod (Some (HString ''HS256'')))))), tm_after_k0, 1)
   \<and> jwkSet tm_after_k0 = Some keys1
   \<and> jwkCache tm_after_k0 ''k0'' = Some key0"
proof -
  have "ValidateIDToken env0 lib0 now0 now0 ''tok-hs256'' (NewTokenManager client0) 0
       = (Inl (Error (FailedToParseAndVerify (ErrTokenUnverifiable
            (UnexpectedSigningMethod (Some (HString ''HS256'')))))), tm_after_k0, 1)"
    by (simp add: ValidateIDToken_def jwt_Parse_def keyfunc_def getPublicKey_k0 lib0_def
          tok_hs256_def)
  then show ?thesis
    by (simp add: lib0_def tok_hs256_def NewTokenManager_def tm_after_k0_def)
qed

subsection \<open>Expired tokens and the checks on the claims\<close>

text \<open>
  The client of the manager is the same after a fetch, a key look-up, the key function
  and the parse; a token that parses is marked valid. For a token that
  \<^verbatim>\<open>jwt.Parse\<close> accepts, the result is the one of the three checks of the package on
  the decoded claims: issuer, then audience, then expiry.
\<close>

lemma fetchJWKSet_Client:
  assumes "fetchJWKSet env tm n = (r, tm', n')"
  shows "tm_Client tm' = tm_Client tm"
  using assms by (auto simp: fetchJWKSet_def split: option.splits if_splits)

lemma getPublicKey_convert_Client:
  assumes "getPublicKey_convert env kid jwk tm n = (r, tm', n')"
  shows "tm_Client tm' = tm_Client tm"
  using assms by (auto simp: getPublicKey_convert_def split: sum.splits)

lemma getPublicKey_Client:
  assumes "getPublicKey env kid tm n = (r, tm', n')"
  shows "tm_Client tm' = tm_Client tm"
proof (cases "jwkCache tm kid")
  case (Some key)
  with assms show ?thesis by (simp add: getPublicKey_def)
next
  case None
  obtain r1 tm1 n1 where f1:
    "(if jwkSet tm = None then fetchJWKSet env tm n else (None, tm, n)) = (r1, tm1, n1)"
    by (metis prod_cases3)
  then have c1: "tm_Client tm1 = tm_Client tm"
    by (auto split: if_splits dest: fetchJWKSet_Client)
  obtain r2 tm2 n2 where f2: "fetchJWKSet env tm1 n1 = (r2, tm2, n2)"
    by (metis prod_cases3)
  then have c2: "tm_Client tm2 = tm_Client tm1"
    by (rule fetchJWKSet_Client)
  from assms None f1 f2 c1 c2 show ?thesis
    by (auto simp: getPublicKey_def split: option.splits dest: getPublicKey_convert_Client)
qed

lemma keyfunc_Client:
  assumes "keyfunc env token tm n = (r, tm', n')"
  shows "tm_Client tm' = tm_Client tm"
proof (cases "Header token ''kid''")
  case None
  with assms show ?thesis by (simp add: keyfunc_def)
next
  case (Some hv)
  show ?thesis
  proof (cases hv)
    case HOther
    with Some assms show ?thesis by (simp add: keyfunc_def)
  next
    case (HString kid)
    obtain r1 tm1 n1 where g: "getPublicKey env kid tm n = (r1, tm1, n1)"
      by (metis prod_cases3)
    then have "tm_Client tm1 = tm_Client tm" by (rule getPublicKey_Client)
    with assms Some HString g show ?thesis
      by (auto simp: keyfunc_def split: sum.splits if_splits)
  qed
qed

lemma jwt_Parse_keyfunc_ok:
  assumes "jwt_Parse lib lib_now idToken (keyfunc env) tm n = (Inr token, tm', n')"
  shows "Valid token \<and> tm_Client tm' = tm_Client tm"
proof -
  from assms obtain t0 where p: "ParseUnverified lib idToken = Inr t0"
    by (auto simp: jwt_Parse_def split: sum.splits)
  obtain r1 tm1 n1 where k: "keyfunc env t0 tm n = (r1, tm1, n1)"
    by (metis prod_cases3)
  then have "tm_Client tm1 = tm_Client tm" by (rule keyfunc_Client)
  with assms p k show ?thesis
    by (auto simp: jwt_Parse_def split: sum.splits if_splits list.splits)
qed

lemma ValidateIDToken_parsed:
  assumes "jwt_Parse lib lib_now idToken (keyfunc env) tm n = (Inr token, tm', n')"
    and "Claims token = MapClaims claimsMap"
    and "json_Marshal lib claimsMap = Some claimsJSON"
    and "json_Unmarshal_Claims lib claimsJSON = Some claims"
  shows "ValidateIDToken env lib lib_now now idToken tm n
           = (validateClaims (config (tm_Client tm)) now claims, tm', n')"
  using assms jwt_Parse_keyfunc_ok [OF assms(1)]
  by (simp add: ValidateIDToken_def)

text \<open>
  A token whose \<^verbatim>\<open>exp\<close> the validator of the library does not find ahead of its
  reading of the clock is rejected inside \<^verbatim>\<open>jwt.Parse\<close>, after the signature check
  and before any check of the package, with the library's error.
\<close>

lemma time_Before_asym:
  assumes "time_Before t u"
  shows "\<not> time_Before u t"
  using assms by (auto simp: time_Before_def split: option.splits)

lemma ValidateIDToken_expired_in_Parse:
  assumes "ParseUnverified lib idToken = Inr token"
    and "keyfunc env token tm n = (Inr key, tm', n')"
    and "Verify lib (Method token) idToken key"
    and "GetExpirationTime lib (Claims token) = Inr (Some exp)"
    and "\<not> time_Before lib_now (time_Unix0 exp)"
  shows "ValidateIDToken env lib lib_now now idToken tm n
           = (Inl (Error (FailedToParseAndVerify (ErrTokenInvalidClaims
                 (ErrTokenExpired # verifyNotBefore lib lib_now (Claims token))))), tm', n')"
  using assms
  by (simp add: ValidateIDToken_def jwt_Parse_def Validator_Validate_def verifyExpiresAt_def)

text \<open>
  The expiry error of the package is never returned when the package and the library
  read the same instant: a token reaches the expiry check of the package only when the
  library has found \<^verbatim>\<open>exp\<close> ahead, so it must expire between the two readings.
\<close>

lemma jwt_Parse_accepts:
  assumes "jwt_Parse lib lib_now idToken keyFunc tm n = (Inr token', tm', n')"
  shows "\<exists>token. ParseUnverified lib idToken = Inr token
           \<and> token' = token\<lparr>Valid := True\<rparr>
           \<and> verifyExpiresAt lib lib_now (Claims token) = []"
  using assms
  by (auto simp: jwt_Parse_def Validator_Validate_def
        split: sum.splits prod.splits if_splits list.splits)

lemma TokenHasExpired_needs_later_reading:
  assumes "ParseUnverified lib idToken = Inr token"
    and "Claims token = MapClaims claimsMap"
    and "GetExpirationTime lib (MapClaims claimsMap) = Inr (Some exp)"
    and "json_Marshal lib claimsMap = Some claimsJSON"
    and "json_Unmarshal_Claims lib claimsJSON = Some claims"
    and "Claims_Expiry claims = exp"
  shows "fst (ValidateIDToken env lib t t idToken tm n) \<noteq> Inl (Error TokenHasExpired)"
proof (cases "jwt_Parse lib t idToken (keyfunc env) tm n")
  case (fields r tm' n')
  show ?thesis
  proof (cases r)
    case (Inl f)
    with fields show ?thesis
      by (cases f) (simp_all add: ValidateIDToken_def)
  next
    case (Inr token')
    with fields jwt_Parse_accepts [of lib t idToken "keyfunc env" tm n token' tm' n'] assms(1)
    have t': "token' = token\<lparr>Valid := True\<rparr>"
      and ok: "verifyExpiresAt lib t (Claims token) = []"
      by auto
    from ok assms(2,3) have "time_Before t (time_Unix0 exp)"
      by (simp add: verifyExpiresAt_def split: if_splits)
    then have "\<not> time_Before (time_Unix0 exp) t"
      by (rule time_Before_asym)
    with fields Inr t' assms(2,4,5,6) show ?thesis
      by (simp add: ValidateIDToken_def validateClaims_def)
  qed
qed

text \<open>The key function resolves the key of the RS256 token with any client of the
  concrete provider.\<close>

lemma keyfunc_tok_rs256:
  assumes "provider c = Some provider0"
  shows "keyfunc env0 tok_rs256 (NewTokenManager c) 0
     = (Inr key0, \<lparr>tm_Client = c, jwkSet = Some keys1, jwkCache = [''k0'' \<mapsto> key0]\<rparr>, 1)"
  using assms
  by (simp add: keyfunc_def getPublicKey_def getPublicKey_convert_def
        jwkToRSAPublicKey_def fetchJWKSet_def env0_def NewTokenManager_def provider0_def
        jwk0_def keys1_def tok_rs256_def)

text \<open>
  C2, at an expired token. The RS256 token signed with \<open>k0\<close> has \<open>exp\<close> 1700000000 and
  is validated at the instant one second later. By the claim, a client configured with
  another issuer gets the issuer error (the issuer is checked first), and the client
  with the right issuer and client id gets the expiry error \<open>TokenHasExpired\<close>. The
  code returns neither: in both cases \<^verbatim>\<open>jwt.Parse\<close> has already rejected the token as
  expired, and the call fails with the parse error that wraps the library's.
\<close>

theorem ValidateIDToken_expired_before_issuer_check:
  "ParseUnverified lib0 ''tok-rs256'' = Inr tok_rs256
   \<and> Claims tok_rs256 = MapClaims ''claims-0''
   \<and> json_Unmarshal_Claims lib0 ''claims-0'' = Some claims0
   \<and> Claims_Issuer claims0 \<noteq> Issuer (config client_iss)
   \<and> sint (Claims_Expiry claims0) * 1000000000 < unix_nano now1
   \<and> ValidateIDToken env0 lib0 now1 now1 ''tok-rs256'' (NewTokenManager client_iss) 0
       = (Inl (Error (FailedToParseAndVerify (ErrTokenInvalidClaims [ErrTokenExpired]))),
          \<lparr>tm_Client = client_iss, jwkSet = Some keys1, jwkCache = [''k0'' \<mapsto> key0]\<rparr>, 1)
   \<and> Claims_Issuer claims0 = Issuer (config client0)
   \<and> Claims_Audience claims0 = ClientID (config client0)
   \<and> ValidateIDToken env0 lib0 now1 now1 ''tok-rs256'' (NewTokenManager client0) 0
       = (Inl (Error (FailedToParseAndVerify (ErrTokenInvalidClaims [ErrTokenExpired]))),
          tm_after_k0, 1)"
proof -
  have p: "ParseUnverified lib0 ''tok-rs256'' = Inr tok_rs256"
    and u: "json_Unmarshal_Claims lib0 ''claims-0'' = Some claims0"
    by (simp_all add: lib0_def)
  have c: "Claims tok_rs256 = MapClaims ''claims-0''"
    by (simp add: tok_rs256_def)
  have v: "Verify lib0 (Method tok_rs256) ''tok-rs256'' key0"
    by (simp add: lib0_def)
  have g: "GetExpirationTime lib0 (Claims tok_rs256) = Inr (Some 1700000000)"
    and nb: "verifyNotBefore lib0 now1 (Claims tok_rs256) = []"
    by (simp_all add: lib0_def tok_rs256_def)
  have x: "\<not> time_Before now1 (time_Unix0 1700000000)"
    by (simp add: time_Before_def time_Unix0_def unixToInternal_def now1_def)
  have k1: "keyfunc env0 tok_rs256 (NewTokenManager client_iss) 0
     = (Inr key0, \<lparr>tm_Client = client_iss, jwkSet = Some keys1,
                   jwkCache = [''k0'' \<mapsto> key0]\<rparr>, 1)"
    by (rule keyfunc_tok_rs256) (simp add: client_iss_def)
  have k2: "keyfunc env0 tok_rs256 (NewTokenManager client0) 0 = (Inr key0, tm_after_k0, 1)"
    using keyfunc_tok_rs256 [of client0] by (simp add: client0_def tm_after_k0_def)
  have i1: "Claims_Issuer claims0 \<noteq> Issuer (config client_iss)"
    and i2: "Claims_Issuer claims0 = Issuer (config client0)"
    and a2: "Claims_Audience claims0 = ClientID (config client0)"
    by (simp_all add: claims0_def client_iss_def client0_def cfg0_def)
  have e: "sint (Claims_Expiry claims0) * 1000000000 < unix_nano now1"
    by (simp add: claims0_def now1_def unix_nano_def unixToInternal_def)
  from ValidateIDToken_expired_in_Parse [OF p k1 v g x, of now1]
       ValidateIDToken_expired_in_Parse [OF p k2 v g x, of now1]
       p c u i1 i2 a2 e nb
  show ?thesis by simp
qed

end
